theory Spec2Isabelle
  imports Main "HOL-Library.Multiset" "HOL-Library.List_Lexorder"
begin

section \<open>Strings of the runtime\<close>

text \<open>
  A JavaScript string is modelled as a \<^typ>\<open>string\<close>, one \<^typ>\<open>char\<close> per code unit, so the
  model covers the strings whose code units are below 256 (the Latin-1 range). On that
  range the three string methods used by the storage are written out below as ECMAScript
  defines them.
\<close>

definition isWhiteSpace :: "char \<Rightarrow> bool" where
  \<comment> \<open>WhiteSpace and LineTerminator code units below 256: TAB, LF, VT, FF, CR, SP, NBSP.\<close>
  "isWhiteSpace c = ((of_char c :: nat) \<in> {9, 10, 11, 12, 13, 32, 160})"

definition trim :: "string \<Rightarrow> string" where
  \<comment> \<open>\<open>String.prototype.trim\<close>: white space removed from both ends.\<close>
  "trim s = rev (dropWhile isWhiteSpace (rev (dropWhile isWhiteSpace s)))"

definition lowerChar :: "char \<Rightarrow> char" where
  \<comment> \<open>A..Z, and the Latin-1 capitals U+00C0..U+00DE without the sign U+00D7.\<close>
  "lowerChar c =
     (let n = (of_char c :: nat)
      in if (65 \<le> n \<and> n \<le> 90) \<or> (192 \<le> n \<and> n \<le> 214) \<or> (216 \<le> n \<and> n \<le> 222)
         then char_of (n + 32) else c)"

definition toLowerCase :: "string \<Rightarrow> string" where
  "toLowerCase s = map lowerChar s"

fun startsWith :: "string \<Rightarrow> string \<Rightarrow> bool" where
  "startsWith s [] = True"
| "startsWith [] (c # t) = False"
| "startsWith (a # s) (c # t) = (a = c \<and> startsWith s t)"

fun includesStr :: "string \<Rightarrow> string \<Rightarrow> bool" where
  \<comment> \<open>\<open>s.includes(t)\<close>: \<open>t\<close> occurs in \<open>s\<close> at some position.\<close>
  "includesStr [] t = (t = [])"
| "includesStr (a # s) t = (startsWith (a # s) t \<or> includesStr s t)"

text \<open>
  \<open>a.title.localeCompare(b.title)\<close> is the collation of the runtime's locale, which the
  repository does not fix. It is a parameter of the model: a function \<open>collate\<close> that sends
  a title to its collation key in a linear order, with
  \<open>a.localeCompare(b) \<le> 0\<close> exactly when \<open>collate a \<le> collate b\<close>. The order of the code
  units is one such collation.
\<close>

definition codeUnits :: "string \<Rightarrow> nat list" where
  "codeUnits s = map of_char s"

section \<open>The data model (shared/schema)\<close>

record User =
  userId :: nat
  username :: string
  password :: string

record Content =
  contentId :: nat
  title :: string
  year :: string
  rating :: string
  genre :: string
  description :: string
  imageUrl :: string
  contentType :: string
  language :: string
  tmdbId :: "int option"
  lastUpdated :: "nat option"

definition UK_RATINGS :: "string list" where
  \<comment> \<open>schema: \<open>rating: text("rating").notNull(), // UK ratings: U, PG, 12, 15, 18\<close>\<close>
  "UK_RATINGS = [''U'', ''PG'', ''12'', ''15'', ''18'']"

section \<open>The rating tables\<close>

definition mapToUKRating :: "string \<Rightarrow> string" where
  "mapToUKRating usRating =
     (if usRating = ''G'' \<or> usRating = ''TV-Y'' \<or> usRating = ''TV-G'' then ''U''
      else if usRating = ''PG'' \<or> usRating = ''TV-PG'' then ''PG''
      else if usRating = ''PG-13'' \<or> usRating = ''TV-14'' then ''PG 13''
      else if usRating = ''R'' \<or> usRating = ''TV-MA'' then ''15''
      else if usRating = ''NC-17'' \<or> usRating = ''X'' then ''18''
      else if usRating = ''Not Rated'' \<or> usRating = ''Unrated'' then ''12''
      else if usRating = ''Approved'' \<or> usRating = ''Passed'' then ''PG''
      else if usRating = ''M'' then ''15''
      else if usRating = ''TV-Y7'' then ''PG''
      else ''12'')"

definition mapTMDBToUKRating :: "string \<Rightarrow> string" where
  "mapTMDBToUKRating certification =
     (if certification = ''U'' then ''U''
      else if certification = ''PG'' then ''PG''
      else if certification = ''12A'' \<or> certification = ''12'' then ''12''
      else if certification = ''15'' then ''15''
      else if certification = ''18'' \<or> certification = ''R18'' then ''18''
      else ''12'')"

section \<open>The storage\<close>

text \<open>
  A JavaScript \<open>Map\<close> keeps its entries in insertion order and \<open>set\<close> on a key that is
  present replaces the value where it stands: an association list.
\<close>

type_synonym ('k, 'v) jsmap = "('k \<times> 'v) list"

fun map_set :: "'k \<Rightarrow> 'v \<Rightarrow> ('k, 'v) jsmap \<Rightarrow> ('k, 'v) jsmap" where
  "map_set k v [] = [(k, v)]"
| "map_set k v ((k', v') # m) = (if k' = k then (k, v) # m else (k', v') # map_set k v m)"

definition map_values :: "('k, 'v) jsmap \<Rightarrow> 'v list" where
  "map_values m = map snd m"

definition map_size :: "('k, 'v) jsmap \<Rightarrow> nat" where
  "map_size m = length m"

record MemStorage =
  users :: "(nat, User) jsmap"
  content :: "(nat, Content) jsmap"
  currentUserId :: nat
  currentContentId :: nat
  lastUpdateTime :: nat
  isUpdating :: bool
  catalogReady :: bool

definition newMemStorage :: MemStorage where
  \<comment> \<open>The fields as the constructor sets them, before it starts the first refresh.\<close>
  "newMemStorage =
     \<lparr>users = [], content = [], currentUserId = 1, currentContentId = 1,
      lastUpdateTime = 0, isUpdating = False, catalogReady = False\<rparr>"

definition createUser :: "string \<Rightarrow> string \<Rightarrow> MemStorage \<Rightarrow> User \<times> MemStorage" where
  "createUser name pw st =
     (let i = currentUserId st;
          user = \<lparr>userId = i, username = name, password = pw\<rparr>
      in (user, st\<lparr>currentUserId := i + 1, users := map_set i user (users st)\<rparr>))"

subsection \<open>The read operations\<close>

definition sortByTitle :: "(string \<Rightarrow> 'k::linorder) \<Rightarrow> Content list \<Rightarrow> Content list" where
  \<comment> \<open>\<open>.sort((a, b) => a.title.localeCompare(b.title))\<close>; \<open>Array.prototype.sort\<close> is stable.\<close>
  "sortByTitle collate xs = sort_key (\<lambda>item. collate (title item)) xs"

definition getAllContent :: "(string \<Rightarrow> 'k::linorder) \<Rightarrow> MemStorage \<Rightarrow> Content list" where
  "getAllContent collate st = sortByTitle collate (map_values (content st))"

definition getContentByRating ::
  "(string \<Rightarrow> 'k::linorder) \<Rightarrow> MemStorage \<Rightarrow> string \<Rightarrow> Content list" where
  "getContentByRating collate st r =
     sortByTitle collate (filter (\<lambda>item. rating item = r) (map_values (content st)))"

definition matchesQuery :: "string \<Rightarrow> Content \<Rightarrow> bool" where
  \<comment> \<open>The predicate of both search filters, on a query that is already in lower case.\<close>
  "matchesQuery lowercaseQuery item =
     (includesStr (toLowerCase (title item)) lowercaseQuery \<or>
      includesStr (toLowerCase (genre item)) lowercaseQuery \<or>
      includesStr (toLowerCase (description item)) lowercaseQuery)"

definition searchContent ::
  "(string \<Rightarrow> 'k::linorder) \<Rightarrow> MemStorage \<Rightarrow> string \<Rightarrow> Content list" where
  "searchContent collate st query =
     (let lowercaseQuery = toLowerCase query
      in sortByTitle collate (filter (matchesQuery lowercaseQuery) (map_values (content st))))"

text \<open>
  \<open>filterContent\<close>. The optional parameters \<open>languages?\<close>, \<open>genres?\<close> and \<open>searchQuery?\<close> are
  options; \<open>x && x.length > 0\<close> and \<open>searchQuery && searchQuery.trim()\<close> are the truth
  values below (the empty string is falsy).
\<close>

definition nonEmpty :: "string list option \<Rightarrow> bool" where
  "nonEmpty xs = (case xs of None \<Rightarrow> False | Some l \<Rightarrow> length l > 0)"

definition hasSearch :: "string option \<Rightarrow> bool" where
  "hasSearch q = (case q of None \<Rightarrow> False | Some s \<Rightarrow> s \<noteq> [] \<and> trim s \<noteq> [])"

definition filterByRatings :: "string list \<Rightarrow> Content list \<Rightarrow> Content list" where
  "filterByRatings ratings filteredContent =
     (if length ratings > 0
      then filter (\<lambda>item. rating item \<in> set ratings) filteredContent
      else filteredContent)"

definition filterByLanguages :: "string list option \<Rightarrow> Content list \<Rightarrow> Content list" where
  "filterByLanguages languages filteredContent =
     (case languages of
        None \<Rightarrow> filteredContent
      | Some ls \<Rightarrow>
          if length ls > 0 then filter (\<lambda>item. language item \<in> set ls) filteredContent
          else filteredContent)"

definition filterByGenres :: "string list option \<Rightarrow> Content list \<Rightarrow> Content list" where
  "filterByGenres genres filteredContent =
     (case genres of
        None \<Rightarrow> filteredContent
      | Some gs \<Rightarrow>
          if length gs > 0 then filter (\<lambda>item. genre item \<in> set gs) filteredContent
          else filteredContent)"

definition filterBySearch :: "string option \<Rightarrow> Content list \<Rightarrow> Content list" where
  "filterBySearch searchQuery filteredContent =
     (case searchQuery of
        None \<Rightarrow> filteredContent
      | Some s \<Rightarrow>
          if s \<noteq> [] \<and> trim s \<noteq> []
          then (let lowercaseQuery = trim (toLowerCase s)
                in filter (matchesQuery lowercaseQuery) filteredContent)
          else filteredContent)"

definition filterContent ::
  "(string \<Rightarrow> 'k::linorder) \<Rightarrow> MemStorage \<Rightarrow> string list \<Rightarrow> string list option \<Rightarrow>
   string list option \<Rightarrow> string option \<Rightarrow> Content list" where
  "filterContent collate st ratings languages genres searchQuery =
     (let filteredContent = map_values (content st);
          hasFilters = (length ratings > 0 \<or> nonEmpty languages \<or> nonEmpty genres \<or>
                        hasSearch searchQuery)
      in if \<not> hasFilters then sortByTitle collate filteredContent
         else
           (let filteredContent = filterByRatings ratings filteredContent;
                filteredContent = filterByLanguages languages filteredContent;
                filteredContent = filterByGenres genres filteredContent;
                filteredContent = filterBySearch searchQuery filteredContent
            in sortByTitle collate filteredContent))"

section \<open>The refresh from the external API\<close>

text \<open>
  What the network answers is the environment of a refresh. A request either fails before
  an answer arrives (\<open>fetch\<close> rejects), or it answers with the flag \<open>response.ok\<close> and a body
  that \<open>response.json()\<close> either rejects or parses.
\<close>

datatype 'a body = ParseError | Json 'a

datatype 'a response = NetworkError | Response bool "'a body"

datatype MediaType = Movie | Tv

record NetflixItem =
  itemId :: int
  media_type :: MediaType

text \<open>
  The detail record of one title, with the values that the code reads. \<open>d_title\<close> is the
  value of \<open>details.title || details.name\<close>, a string as the type \<open>Content\<close> asks;
  \<open>d_release_dates\<close> is \<open>release_dates.results\<close>, each entry a country code with the
  certifications of its \<open>release_dates\<close>; \<open>d_content_ratings\<close> is \<open>content_ratings.results\<close>,
  each entry a country code with its rating; \<open>d_genres\<close> holds the names of \<open>genres\<close>.
\<close>

record Details =
  d_title :: string
  d_release_date :: "string option"
  d_first_air_date :: "string option"
  d_release_dates :: "(string \<times> string option list) list option"
  d_content_ratings :: "(string \<times> string option) list option"
  d_genres :: "string list option"
  d_overview :: "string option"
  d_poster_path :: "string option"
  d_original_language :: "string option"

text \<open>
  A page of a discovery request carries \<open>data.results\<close>, here the list of the \<open>id\<close>s of its
  items when the field is there. The detail request of a title is named by the index of
  the title in \<open>allNetflixContent\<close>. The requests of one batch run concurrently:
  \<open>completionOrder\<close> is the order in which their answers arrive, \<open>itemTime\<close> and \<open>endTime\<close>
  are the readings of the clock.
\<close>

type_synonym request = "nat \<times> NetflixItem \<times> Details response"

record Env =
  moviePage :: "nat \<Rightarrow> int list option response"
  tvPage :: "nat \<Rightarrow> int list option response"
  detail :: "nat \<Rightarrow> Details response"
  completionOrder :: "nat \<Rightarrow> request list \<Rightarrow> request list"
  itemTime :: "nat \<Rightarrow> nat"
  endTime :: nat

definition orElse :: "string option \<Rightarrow> string \<Rightarrow> string" where
  \<comment> \<open>\<open>x || d\<close> on a string that may be missing: the empty string is falsy.\<close>
  "orElse x d = (case x of None \<Rightarrow> d | Some s \<Rightarrow> if s \<noteq> [] then s else d)"

definition languageMap :: "(string \<times> string) list" where
  "languageMap =
     [(''en'', ''English''), (''es'', ''Spanish''), (''fr'', ''French''), (''de'', ''German''),
      (''it'', ''Italian''), (''ja'', ''Japanese''), (''ko'', ''Korean''), (''zh'', ''Chinese''),
      (''hi'', ''Hindi''), (''pt'', ''Portuguese''), (''ru'', ''Russian''), (''ar'', ''Arabic''),
      (''th'', ''Thai''), (''tr'', ''Turkish''), (''nl'', ''Dutch''), (''sv'', ''Swedish''),
      (''da'', ''Danish''), (''no'', ''Norwegian''), (''fi'', ''Finnish''), (''pl'', ''Polish''),
      (''cs'', ''Czech''), (''hu'', ''Hungarian''), (''ro'', ''Romanian''),
      (''bg'', ''Bulgarian''), (''hr'', ''Croatian''), (''sr'', ''Serbian''),
      (''sk'', ''Slovak''), (''sl'', ''Slovenian''), (''et'', ''Estonian''),
      (''lv'', ''Latvian''), (''lt'', ''Lithuanian''), (''mt'', ''Maltese''), (''ga'', ''Irish'')]"

definition fallbackImage :: string where
  "fallbackImage =
     ''https://images.unsplash.com/photo-1440404653325-ab127d49abc1?w=400&h=600&fit=crop''"

definition extractUKRating :: "MediaType \<Rightarrow> Details \<Rightarrow> string" where
  "extractUKRating mediaType details =
     (if mediaType = Movie \<and> d_release_dates details \<noteq> None then
        (case find (\<lambda>r. fst r = ''GB'') (the (d_release_dates details)) of
           None \<Rightarrow> ''12''
         | Some gbRelease \<Rightarrow>
             (case snd gbRelease of
                [] \<Rightarrow> ''12''
              | first # _ \<Rightarrow>
                  (case first of
                     None \<Rightarrow> ''12''
                   | Some certification \<Rightarrow>
                       if certification \<noteq> [] then mapTMDBToUKRating certification else ''12'')))
      else if mediaType = Tv \<and> d_content_ratings details \<noteq> None then
        (case find (\<lambda>r. fst r = ''GB'') (the (d_content_ratings details)) of
           None \<Rightarrow> ''12''
         | Some gbRating \<Rightarrow>
             (case snd gbRating of
                None \<Rightarrow> ''12''
              | Some r \<Rightarrow> if r \<noteq> [] then mapTMDBToUKRating r else ''12''))
      else ''12'')"

definition buildContent :: "nat \<Rightarrow> nat \<Rightarrow> NetflixItem \<Rightarrow> Details \<Rightarrow> Content" where
  \<comment> \<open>The object literal \<open>content\<close>, with the id and the time it is given.\<close>
  "buildContent newId now item details =
     (let mediaType = media_type item;
          ukRating = extractUKRating mediaType details;
          originalLanguage =
            (case d_original_language details of
               None \<Rightarrow> ''Other''
             | Some code \<Rightarrow> orElse (map_of languageMap code) ''Other'')
      in \<lparr>contentId = newId,
          title = d_title details,
          year = (let y = take 4 (orElse (d_release_date details)
                                  (orElse (d_first_air_date details) []))
                  in if y \<noteq> [] then y else ''Unknown''),
          rating = ukRating,
          genre = (case d_genres details of
                     None \<Rightarrow> ''Drama''
                   | Some [] \<Rightarrow> ''Drama''
                   | Some (name # _) \<Rightarrow> if name \<noteq> [] then name else ''Drama''),
          description = orElse (d_overview details) ''No description available'',
          imageUrl = (case d_poster_path details of
                        None \<Rightarrow> fallbackImage
                      | Some path \<Rightarrow>
                          if path \<noteq> [] then ''https://image.tmdb.org/t/p/w500'' @ path
                          else fallbackImage),
          contentType = (if mediaType = Movie then ''movie'' else ''series''),
          language = originalLanguage,
          tmdbId = Some (itemId item),
          lastUpdated = Some now\<rparr>)"

definition processItem :: "Env \<Rightarrow> request \<Rightarrow> MemStorage \<Rightarrow> MemStorage" where
  \<comment> \<open>The callback of \<open>batch.map\<close> from the answer of its request on: a failure is caught
      and the title is skipped; otherwise the title takes the next id and is stored.\<close>
  "processItem env req st =
     (case req of (j, item, answer) \<Rightarrow>
        (case answer of
           NetworkError \<Rightarrow> st
         | Response ok b \<Rightarrow>
             (case b of
                ParseError \<Rightarrow> st
              | Json details \<Rightarrow>
                  (let c = buildContent (currentContentId st) (itemTime env j) item details;
                       st = st\<lparr>currentContentId := currentContentId st + 1\<rparr>
                   in st\<lparr>content := map_set (contentId c) c (content st)\<rparr>))))"

function fetchMovies :: "Env \<Rightarrow> nat \<Rightarrow> NetflixItem list \<Rightarrow> NetflixItem list" where
  "fetchMovies env page allNetflixContent =
     (if page \<le> 300 then
        (case moviePage env page of
           NetworkError \<Rightarrow> allNetflixContent
         | Response ok b \<Rightarrow>
             if \<not> ok then allNetflixContent
             else
               (case b of
                  ParseError \<Rightarrow> allNetflixContent
                | Json results \<Rightarrow>
                    (case results of
                       None \<Rightarrow> allNetflixContent
                     | Some rs \<Rightarrow>
                         if length rs > 0
                         then fetchMovies env (page + 1)
                                (allNetflixContent @
                                 map (\<lambda>i. \<lparr>itemId = i, media_type = Movie\<rparr>) rs)
                         else allNetflixContent)))
      else allNetflixContent)"
  by pat_completeness auto
termination
  by (relation "measure (\<lambda>(env, page, acc). 301 - page)") auto

declare fetchMovies.simps [simp del]

function fetchTV :: "Env \<Rightarrow> nat \<Rightarrow> NetflixItem list \<Rightarrow> NetflixItem list" where
  "fetchTV env page allNetflixContent =
     (if page \<le> 300 then
        (case tvPage env page of
           NetworkError \<Rightarrow> allNetflixContent
         | Response ok b \<Rightarrow>
             (case b of
                ParseError \<Rightarrow> allNetflixContent
              | Json results \<Rightarrow>
                  (case results of
                     None \<Rightarrow> allNetflixContent
                   | Some rs \<Rightarrow>
                       if length rs > 0
                       then fetchTV env (page + 1)
                              (allNetflixContent @
                               map (\<lambda>i. \<lparr>itemId = i, media_type = Tv\<rparr>) rs)
                       else allNetflixContent)))
      else allNetflixContent)"
  by pat_completeness auto
termination
  by (relation "measure (\<lambda>(env, page, acc). 301 - page)") auto

declare fetchTV.simps [simp del]

definition batchSize :: nat where
  "batchSize = 50"

function processBatches :: "Env \<Rightarrow> NetflixItem list \<Rightarrow> nat \<Rightarrow> MemStorage \<Rightarrow> MemStorage" where
  "processBatches env allNetflixContent i st =
     (if i < length allNetflixContent then
        (let batch = take batchSize (drop i allNetflixContent);
             requests = map (\<lambda>(j, item). (j, item, detail env j))
                          (zip [i ..< i + length batch] batch);
             st = fold (processItem env) (completionOrder env i requests) st;
             st = (if i mod (batchSize * 2) = 0 \<and> \<not> catalogReady st \<and>
                      map_size (content st) \<ge> 1000
                   then st\<lparr>catalogReady := True\<rparr> else st)
         in processBatches env allNetflixContent (i + batchSize) st)
      else st)"
  by pat_completeness auto
termination
  by (relation "measure (\<lambda>(env, items, i, st). length items - i)") (auto simp add: batchSize_def)

declare processBatches.simps [simp del]

definition buildNetflixCatalogFromTMDB :: "Env \<Rightarrow> MemStorage \<Rightarrow> MemStorage" where
  \<comment> \<open>Every failure is caught inside the loops, so the outer \<open>catch\<close> is never entered.\<close>
  "buildNetflixCatalogFromTMDB env st =
     (let allNetflixContent = fetchMovies env 1 [];
          allNetflixContent = fetchTV env 1 allNetflixContent
      in processBatches env allNetflixContent 0 st)"

definition refreshContentFromAPI :: "Env \<Rightarrow> MemStorage \<Rightarrow> MemStorage" where
  "refreshContentFromAPI env st =
     (if isUpdating st then st
      else
        (let st = st\<lparr>isUpdating := True\<rparr>;
             st = st\<lparr>content := []\<rparr>;
             st = st\<lparr>currentContentId := 1\<rparr>;
             st = buildNetflixCatalogFromTMDB env st;
             st = st\<lparr>lastUpdateTime := endTime env\<rparr>
         in st\<lparr>isUpdating := False\<rparr>))"

subsection \<open>The steps of the storage\<close>

text \<open>
  The states of the storage that a caller can meet. Between two \<open>await\<close>s nothing else
  runs, so besides the whole operations the steps of a refresh in progress are listed:
  its first lines up to the first request, the storing of one title, the two places that
  set \<open>catalogReady\<close>, and its last two lines. The steps are taken in any order here, which
  can only add states.
\<close>

inductive reachable :: "MemStorage \<Rightarrow> bool" where
  new: "reachable newMemStorage"
| refresh: "reachable st \<Longrightarrow> reachable (refreshContentFromAPI env st)"
| user: "reachable st \<Longrightarrow> reachable (snd (createUser name pw st))"
| start: "reachable st \<Longrightarrow> \<not> isUpdating st \<Longrightarrow>
          reachable (st\<lparr>isUpdating := True, content := [], currentContentId := 1\<rparr>)"
| item: "reachable st \<Longrightarrow> reachable (processItem env req st)"
| ready: "reachable st \<Longrightarrow> reachable (st\<lparr>catalogReady := True\<rparr>)"
| finish: "reachable st \<Longrightarrow> reachable (st\<lparr>lastUpdateTime := t, isUpdating := False\<rparr>)"

definition tableInv :: "MemStorage \<Rightarrow> bool" where
  \<comment> \<open>The keys of the table are distinct, every title is stored under its own id, and
      every id in use is below the counter.\<close>
  "tableInv st =
     (distinct (map fst (content st)) \<and>
      (\<forall>(k, c)\<in>set (content st). contentId c = k \<and> k < currentContentId st))"

fun rejected :: "'a response \<Rightarrow> bool" where
  \<comment> \<open>The request ends with a network error or a body that does not parse.\<close>
  "rejected NetworkError = True"
| "rejected (Response ok ParseError) = True"
| "rejected (Response ok (Json x)) = False"

section \<open>The filter as the specification words it\<close>

text \<open>
  The items that the specification promises: every constraint that is not empty holds,
  and the search constraint holds when title, genre or description contains the query,
  case ignored.
\<close>

definition specMatches ::
  "string list \<Rightarrow> string list option \<Rightarrow> string list option \<Rightarrow> string option \<Rightarrow>
   Content \<Rightarrow> bool" where
  "specMatches ratings languages genres searchQuery item =
     ((ratings \<noteq> [] \<longrightarrow> rating item \<in> set ratings) \<and>
      (case languages of None \<Rightarrow> True | Some ls \<Rightarrow> ls \<noteq> [] \<longrightarrow> language item \<in> set ls) \<and>
      (case genres of None \<Rightarrow> True | Some gs \<Rightarrow> gs \<noteq> [] \<longrightarrow> genre item \<in> set gs) \<and>
      (case searchQuery of
         None \<Rightarrow> True
       | Some s \<Rightarrow> s \<noteq> [] \<longrightarrow> matchesQuery (toLowerCase s) item))"

text \<open>
  The same with the search constraint as the code has it: it counts when the query is not
  blank, and it looks for the query in lower case with the white space at its ends removed.
\<close>

definition matchesFilters ::
  "string list \<Rightarrow> string list option \<Rightarrow> string list option \<Rightarrow> string option \<Rightarrow>
   Content \<Rightarrow> bool" where
  "matchesFilters ratings languages genres searchQuery item =
     ((ratings \<noteq> [] \<longrightarrow> rating item \<in> set ratings) \<and>
      (case languages of None \<Rightarrow> True | Some ls \<Rightarrow> ls \<noteq> [] \<longrightarrow> language item \<in> set ls) \<and>
      (case genres of None \<Rightarrow> True | Some gs \<Rightarrow> gs \<noteq> [] \<longrightarrow> genre item \<in> set gs) \<and>
      (case searchQuery of
         None \<Rightarrow> True
       | Some s \<Rightarrow> trim s \<noteq> [] \<longrightarrow> matchesQuery (trim (toLowerCase s)) item))"

definition applyStages ::
  "(Content list \<Rightarrow> Content list) list \<Rightarrow> Content list \<Rightarrow> Content list" where
  \<comment> \<open>The filter stages applied one after the other, the head of the list first.\<close>
  "applyStages stages xs = fold (\<lambda>stage filteredContent. stage filteredContent) stages xs"

section \<open>A small catalog\<close>

definition upDetails :: Details where
  "upDetails =
     \<lparr>d_title = ''Up'', d_release_date = Some ''2009-05-28'', d_first_air_date = None,
      d_release_dates = Some [(''US'', [Some ''PG'']), (''GB'', [Some ''U''])],
      d_content_ratings = None, d_genres = Some [''Animation'', ''Comedy''],
      d_overview = Some ''A house flies away'', d_poster_path = Some ''/up.jpg'',
      d_original_language = Some ''en''\<rparr>"

definition arrivalDetails :: Details where
  "arrivalDetails =
     \<lparr>d_title = ''Arrival'', d_release_date = Some ''2016-11-10'', d_first_air_date = None,
      d_release_dates = Some [(''GB'', [Some ''12A''])],
      d_content_ratings = None, d_genres = Some [''Drama''],
      d_overview = Some ''Linguists meet visitors'', d_poster_path = None,
      d_original_language = Some ''en''\<rparr>"

definition darkDetails :: Details where
  "darkDetails =
     \<lparr>d_title = ''Dark'', d_release_date = None, d_first_air_date = Some ''2017-12-01'',
      d_release_dates = None,
      d_content_ratings = Some [(''DE'', Some ''16''), (''GB'', Some ''15'')],
      d_genres = Some [''Crime''], d_overview = None, d_poster_path = Some ''/dark.jpg'',
      d_original_language = Some ''de''\<rparr>"

definition exampleEnv :: Env where
  \<comment> \<open>One page of two films, one page of one series; the answers of a batch arrive in
      the reverse order of the requests.\<close>
  "exampleEnv =
     \<lparr>moviePage = (\<lambda>page. if page = 1 then Response True (Json (Some [14160, 329865]))
                           else Response True (Json (Some []))),
      tvPage = (\<lambda>page. if page = 1 then Response True (Json (Some [70523]))
                        else NetworkError),
      detail = (\<lambda>j. if j = 0 then Response True (Json upDetails)
                     else if j = 1 then Response True (Json arrivalDetails)
                     else Response True (Json darkDetails)),
      completionOrder = (\<lambda>i requests. rev requests),
      itemTime = (\<lambda>j. 1000 + j),
      endTime = 2000\<rparr>"

definition failingEnv :: Env where
  \<comment> \<open>No request succeeds.\<close>
  "failingEnv =
     \<lparr>moviePage = (\<lambda>page. NetworkError),
      tvPage = (\<lambda>page. Response False ParseError),
      detail = (\<lambda>j. NetworkError),
      completionOrder = (\<lambda>i requests. requests),
      itemTime = (\<lambda>j. 3000 + j),
      endTime = 4000\<rparr>"

definition itemDark :: Content where
  "itemDark =
     \<lparr>contentId = 1, title = ''Dark'', year = ''2017'', rating = ''15'', genre = ''Crime'',
      description = ''No description available'',
      imageUrl = ''https://image.tmdb.org/t/p/w500/dark.jpg'', contentType = ''series'',
      language = ''German'', tmdbId = Some 70523, lastUpdated = Some 1002\<rparr>"

definition itemArrival :: Content where
  "itemArrival =
     \<lparr>contentId = 2, title = ''Arrival'', year = ''2016'', rating = ''12'', genre = ''Drama'',
      description = ''Linguists meet visitors'', imageUrl = fallbackImage,
      contentType = ''movie'', language = ''English'', tmdbId = Some 329865,
      lastUpdated = Some 1001\<rparr>"

definition itemUp :: Content where
  "itemUp =
     \<lparr>contentId = 3, title = ''Up'', year = ''2009'', rating = ''U'', genre = ''Animation'',
      description = ''A house flies away'',
      imageUrl = ''https://image.tmdb.org/t/p/w500/up.jpg'', contentType = ''movie'',
      language = ''English'', tmdbId = Some 14160, lastUpdated = Some 1000\<rparr>"

definition exampleStore :: MemStorage where
  "exampleStore =
     \<lparr>users = [], content = [(1, itemDark), (2, itemArrival), (3, itemUp)],
      currentUserId = 1, currentContentId = 4, lastUpdateTime = 2000, isUpdating = False,
      catalogReady = False\<rparr>"

section \<open>Strings: what the methods compute\<close>

lemma startsWith_iff: "startsWith s t \<longleftrightarrow> (\<exists>ss. s = t @ ss)"
  by (induction s t rule: startsWith.induct) auto

lemma includesStr_iff: "includesStr s t \<longleftrightarrow> (\<exists>ps ss. s = ps @ t @ ss)"
proof (induction s)
  case Nil
  show ?case by auto
next
  case (Cons a s)
  show ?case
  proof
    assume "includesStr (a # s) t"
    then consider "startsWith (a # s) t" | "includesStr s t"
      by auto
    then show "\<exists>ps ss. a # s = ps @ t @ ss"
    proof cases
      case 1
      then obtain ss where "a # s = [] @ t @ ss"
        by (auto simp add: startsWith_iff)
      then show ?thesis by blast
    next
      case 2
      then obtain ps ss where "s = ps @ t @ ss"
        using Cons.IH by blast
      then have "a # s = (a # ps) @ t @ ss"
        by simp
      then show ?thesis by blast
    qed
  next
    assume "\<exists>ps ss. a # s = ps @ t @ ss"
    then obtain ps ss where eq: "a # s = ps @ t @ ss"
      by blast
    show "includesStr (a # s) t"
    proof (cases ps)
      case Nil
      with eq have "startsWith (a # s) t"
        by (auto simp add: startsWith_iff)
      then show ?thesis by simp
    next
      case (Cons b ps')
      with eq have "s = ps' @ t @ ss"
        by simp
      then have "includesStr s t"
        using Cons.IH by blast
      then show ?thesis by simp
    qed
  qed
qed

lemma trim_Nil [simp]: "trim [] = []"
  by (simp add: trim_def)

lemma trim_blank:
  assumes "\<forall>c\<in>set s. isWhiteSpace c"
  shows "trim s = []"
  using assms by (auto simp add: trim_def dest: set_dropWhileD)

section \<open>The rating tables\<close>

lemma mapTMDBToUKRating_vocabulary: "mapTMDBToUKRating certification \<in> set UK_RATINGS"
  by (simp add: mapTMDBToUKRating_def UK_RATINGS_def)

lemma mapTMDBToUKRating_default:
  "certification \<notin> set [''U'', ''PG'', ''12A'', ''12'', ''15'', ''18'', ''R18''] \<Longrightarrow>
   mapTMDBToUKRating certification = ''12''"
  by (simp add: mapTMDBToUKRating_def)

lemma mapToUKRating_vocabulary:
  "usRating \<noteq> ''PG-13'' \<Longrightarrow> usRating \<noteq> ''TV-14'' \<Longrightarrow> mapToUKRating usRating \<in> set UK_RATINGS"
  by (simp add: mapToUKRating_def UK_RATINGS_def)

text \<open>
  C3: each of the two rating tables returns one of U, PG, 12, 15, 18 on every input, and
  12 on the codes it does not list. The table of \<open>mapTMDBToUKRating\<close> does
  (\<open>mapTMDBToUKRating_vocabulary\<close>), the table of \<open>mapToUKRating\<close> does not: on the codes
  PG-13 and TV-14 it answers \<open>PG 13\<close>, which is none of the five ratings.
\<close>

theorem mapToUKRating_outside_vocabulary:
  "mapToUKRating ''PG-13'' = ''PG 13'' \<and> mapToUKRating ''TV-14'' = ''PG 13'' \<and>
   ''PG 13'' \<notin> set UK_RATINGS"
  by (simp add: mapToUKRating_def UK_RATINGS_def)

section \<open>The filter\<close>

lemma filterByRatings_filter:
  "filterByRatings ratings xs =
     filter (\<lambda>item. ratings \<noteq> [] \<longrightarrow> rating item \<in> set ratings) xs"
  by (simp add: filterByRatings_def)

lemma filterByLanguages_filter:
  "filterByLanguages languages xs =
     filter (\<lambda>item. case languages of None \<Rightarrow> True
                    | Some ls \<Rightarrow> ls \<noteq> [] \<longrightarrow> language item \<in> set ls) xs"
  by (simp add: filterByLanguages_def split: option.splits)

lemma filterByGenres_filter:
  "filterByGenres genres xs =
     filter (\<lambda>item. case genres of None \<Rightarrow> True
                    | Some gs \<Rightarrow> gs \<noteq> [] \<longrightarrow> genre item \<in> set gs) xs"
  by (simp add: filterByGenres_def split: option.splits)

lemma filterBySearch_filter:
  "filterBySearch searchQuery xs =
     filter (\<lambda>item. case searchQuery of None \<Rightarrow> True
                    | Some s \<Rightarrow> trim s \<noteq> [] \<longrightarrow> matchesQuery (trim (toLowerCase s)) item) xs"
  by (auto simp add: filterBySearch_def split: option.splits)

lemma stages_filter:
  "filterBySearch q (filterByGenres g (filterByLanguages l (filterByRatings r xs))) =
     filter (matchesFilters r l g q) xs"
  unfolding filterByRatings_filter filterByLanguages_filter filterByGenres_filter
    filterBySearch_filter filter_filter matchesFilters_def
  by (rule filter_cong) auto

lemma no_filters_all:
  "\<not> (length r > 0 \<or> nonEmpty l \<or> nonEmpty g \<or> hasSearch q) \<Longrightarrow> matchesFilters r l g q item"
  by (auto simp add: matchesFilters_def nonEmpty_def hasSearch_def split: option.splits)

lemma filterContent_filter:
  "filterContent collate st r l g q =
     sortByTitle collate (filter (matchesFilters r l g q) (map_values (content st)))"
proof (cases "length r > 0 \<or> nonEmpty l \<or> nonEmpty g \<or> hasSearch q")
  case True
  then show ?thesis
    by (simp add: filterContent_def Let_def stages_filter)
next
  case False
  then have "filter (matchesFilters r l g q) (map_values (content st)) = map_values (content st)"
    using no_filters_all [of r l g q] by (simp add: filter_id_conv)
  with False show ?thesis
    by (simp add: filterContent_def Let_def)
qed

lemma sorted_sortByTitle:
  "sorted (map (\<lambda>item. collate (title item)) (sortByTitle collate xs))"
  by (simp add: sortByTitle_def)

lemma mset_sortByTitle: "mset (sortByTitle collate xs) = mset xs"
  by (simp add: sortByTitle_def)

lemma sortByTitle_filter:
  "filter P (sortByTitle collate xs) = sortByTitle collate (filter P xs)"
  by (simp add: sortByTitle_def filter_sort)

lemma sortByTitle_idem:
  "sortByTitle collate (sortByTitle collate xs) = sortByTitle collate xs"
  unfolding sortByTitle_def by (rule sort_key_id_if_sorted) simp

text \<open>
  C1, as the specification words it: \<open>filterContent\<close> returns, sorted by title, exactly the
  items that satisfy every constraint that is not empty, the search constraint being that
  title, genre or description contains the query, case ignored. The code removes the white
  space around the query first: the query \<open>" up"\<close> finds the title Up, which does not
  contain it.
\<close>

theorem filterContent_untrimmed_query_counterexample:
  "filterContent codeUnits exampleStore [] None None (Some '' up'') = [itemUp] \<and>
   sortByTitle codeUnits
     (filter (specMatches [] None None (Some '' up'')) (map_values (content exampleStore))) = []"
  by code_simp

text \<open>
  C1, amended: for every table, every list of ratings, languages and genres and every
  search string, \<open>filterContent\<close> returns, sorted by title, exactly the items of the table
  that satisfy every constraint in force. A list constraint is in force when the list is
  not empty and holds when the attribute of the item is in the list; the search constraint
  is in force when the query is not blank and holds when title, genre or description, in
  lower case, contains the query in lower case with the white space at its ends removed.
\<close>

theorem filterContent_matchesFilters:
  "filterContent collate st ratings languages genres searchQuery =
     sortByTitle collate
       (filter (matchesFilters ratings languages genres searchQuery) (map_values (content st))) \<and>
   mset (filterContent collate st ratings languages genres searchQuery) =
     filter_mset (matchesFilters ratings languages genres searchQuery)
       (mset (map_values (content st))) \<and>
   sorted (map (\<lambda>item. collate (title item))
     (filterContent collate st ratings languages genres searchQuery))"
  by (simp add: filterContent_filter sorted_sortByTitle mset_sortByTitle)

theorem filterContent_matchesFilters_witness:
  "filterContent codeUnits exampleStore [''12'', ''15''] (Some [''English'']) (Some [])
     (Some '' ARR '') = [itemArrival] \<and>
   matchesFilters [''12'', ''15''] (Some [''English'']) (Some []) (Some '' ARR '') itemArrival \<and>
   \<not> matchesFilters [''12'', ''15''] (Some [''English'']) (Some []) (Some '' ARR '') itemDark"
proof -
  have "sortByTitle codeUnits
          (filter (matchesFilters [''12'', ''15''] (Some [''English'']) (Some [])
             (Some '' ARR '')) (map_values (content exampleStore))) = [itemArrival]"
    by code_simp
  moreover have
    "matchesFilters [''12'', ''15''] (Some [''English'']) (Some []) (Some '' ARR '') itemArrival"
    "\<not> matchesFilters [''12'', ''15''] (Some [''English'']) (Some []) (Some '' ARR '') itemDark"
    by code_simp+
  ultimately show ?thesis
    using filterContent_matchesFilters [of codeUnits exampleStore "[''12'', ''15'']"
        "Some [''English'']" "Some []" "Some '' ARR ''"]
    by simp
qed

text \<open>
  C4: with no rating, no language, no genre (the list empty or absent) and no search
  query (absent, empty or blank), \<open>filterContent\<close> returns the whole table, sorted by title.
\<close>

theorem filterContent_no_filters:
  assumes "ratings = []"
    and "languages = None \<or> languages = Some []"
    and "genres = None \<or> genres = Some []"
    and "searchQuery = None \<or> (\<exists>s. searchQuery = Some s \<and> (\<forall>c\<in>set s. isWhiteSpace c))"
  shows "filterContent collate st ratings languages genres searchQuery =
           sortByTitle collate (map_values (content st)) \<and>
         mset (filterContent collate st ratings languages genres searchQuery) =
           mset (map_values (content st)) \<and>
         sorted (map (\<lambda>item. collate (title item))
           (filterContent collate st ratings languages genres searchQuery))"
proof -
  have l: "\<not> nonEmpty languages" and g: "\<not> nonEmpty genres"
    using assms(2,3) by (auto simp add: nonEmpty_def)
  have q: "\<not> hasSearch searchQuery"
    using assms(4) by (auto simp add: hasSearch_def trim_blank)
  have "filterContent collate st ratings languages genres searchQuery =
          sortByTitle collate (map_values (content st))"
    using assms(1) l g q by (simp add: filterContent_def)
  then show ?thesis
    by (simp add: sorted_sortByTitle mset_sortByTitle)
qed

theorem filterContent_no_filters_witness:
  "filterContent codeUnits exampleStore [] (Some []) None (Some ''  '') =
     [itemArrival, itemDark, itemUp]"
proof -
  have "\<forall>c\<in>set ''  ''. isWhiteSpace c"
    by (simp add: isWhiteSpace_def)
  then have blank:
    "Some ''  '' = None \<or> (\<exists>s. Some ''  '' = Some s \<and> (\<forall>c\<in>set s. isWhiteSpace c))"
    by blast
  have "sortByTitle codeUnits (map_values (content exampleStore)) =
          [itemArrival, itemDark, itemUp]"
    by code_simp
  with filterContent_no_filters [OF refl _ _ blank, of "Some []" None codeUnits exampleStore]
  show ?thesis
    by simp
qed

text \<open>
  C5: the lists returned by \<open>getAllContent\<close>, \<open>getContentByRating\<close>, \<open>searchContent\<close> and
  \<open>filterContent\<close> are sorted by title, in every state and for every argument. The order
  of the titles is the one of \<open>localeCompare\<close>, whatever collation the runtime uses.
\<close>

theorem read_operations_sorted:
  "sorted (map (\<lambda>item. collate (title item)) (getAllContent collate st)) \<and>
   sorted (map (\<lambda>item. collate (title item)) (getContentByRating collate st r)) \<and>
   sorted (map (\<lambda>item. collate (title item)) (searchContent collate st query)) \<and>
   sorted (map (\<lambda>item. collate (title item))
     (filterContent collate st ratings languages genres searchQuery))"
  by (simp add: getAllContent_def getContentByRating_def searchContent_def
      filterContent_filter sorted_sortByTitle)

theorem read_operations_sorted_witness:
  "map title (getAllContent codeUnits exampleStore) = [''Arrival'', ''Dark'', ''Up''] \<and>
   map title (searchContent codeUnits exampleStore ''R'') = [''Arrival'', ''Dark''] \<and>
   sorted (map (\<lambda>item. codeUnits (title item)) (getAllContent codeUnits exampleStore)) \<and>
   sorted (map (\<lambda>item. codeUnits (title item)) (searchContent codeUnits exampleStore ''R''))"
proof -
  have "map title (getAllContent codeUnits exampleStore) = [''Arrival'', ''Dark'', ''Up'']"
    and "map title (searchContent codeUnits exampleStore ''R'') = [''Arrival'', ''Dark'']"
    by code_simp+
  then show ?thesis
    using read_operations_sorted [of codeUnits exampleStore _ "''R''"]
    by blast
qed

text \<open>
  C6: filtering is idempotent. When the list that \<open>filterContent\<close> returns is taken as the
  table and the same filters are applied to it, the same list comes back.
\<close>

theorem filterContent_idempotent:
  assumes "map_values table = filterContent collate st ratings languages genres searchQuery"
  shows "filterContent collate (st\<lparr>content := table\<rparr>) ratings languages genres searchQuery =
         filterContent collate st ratings languages genres searchQuery"
  using assms
  by (simp add: filterContent_filter sortByTitle_filter sortByTitle_idem)

theorem filterContent_idempotent_witness:
  "filterContent codeUnits (exampleStore\<lparr>content := [(1, itemArrival), (2, itemUp)]\<rparr>)
     [] (Some [''English'']) None None =
   filterContent codeUnits exampleStore [] (Some [''English'']) None None"
proof -
  have "map_values [(1, itemArrival), (2, itemUp)] =
        filterContent codeUnits exampleStore [] (Some [''English'']) None None"
    by code_simp
  then show ?thesis
    by (rule filterContent_idempotent)
qed

lemma stage_cases:
  assumes "s \<in> set [filterByRatings r, filterByLanguages l, filterByGenres g, filterBySearch q]"
  obtains P where "s = filter P"
  using assms filterByRatings_filter filterByLanguages_filter filterByGenres_filter
    filterBySearch_filter
  by (auto simp add: fun_eq_iff)

text \<open>
  C7: filtering is commutative across the categories. Whatever the order in which the four
  stages (ratings, languages, genres, search) are applied to the table, sorting the outcome
  by title gives the list that \<open>filterContent\<close> returns.
\<close>

theorem filterContent_stage_order:
  assumes "mset stages =
           mset [filterByRatings ratings, filterByLanguages languages,
                 filterByGenres genres, filterBySearch searchQuery]"
  shows "sortByTitle collate (applyStages stages (map_values (content st))) =
         filterContent collate st ratings languages genres searchQuery"
proof -
  let ?code = "[filterByRatings ratings, filterByLanguages languages,
                filterByGenres genres, filterBySearch searchQuery]"
  have mem: "set stages = set ?code"
    using assms by (rule mset_eq_setD)
  have "applyStages stages (map_values (content st)) =
        applyStages ?code (map_values (content st))"
    unfolding applyStages_def
  proof (rule fold_permuted_eq [where P = "\<lambda>_. True"])
    show "mset stages = mset ?code" by (rule assms)
  next
    fix a b xs
    assume "a \<in> set stages" and "b \<in> set stages"
    then obtain P Q where "a = filter P" and "b = filter Q"
      unfolding mem by (metis stage_cases)
    then show "a (b xs) = b (a xs)"
      by (auto simp add: conj_commute)
  qed simp_all
  then show ?thesis
    by (simp add: applyStages_def stages_filter filterContent_filter)
qed

theorem filterContent_stage_order_witness:
  "sortByTitle codeUnits
     (applyStages [filterBySearch (Some ''a''), filterByGenres None,
                   filterByRatings [''12'', ''U''], filterByLanguages (Some [''English''])]
        (map_values (content exampleStore))) =
   filterContent codeUnits exampleStore [''12'', ''U''] (Some [''English'']) None (Some ''a'')"
proof -
  have "mset [filterBySearch (Some ''a''), filterByGenres None,
              filterByRatings [''12'', ''U''], filterByLanguages (Some [''English''])] =
        mset [filterByRatings [''12'', ''U''], filterByLanguages (Some [''English'']),
              filterByGenres None, filterBySearch (Some ''a'')]"
    by (simp add: add_mset_commute)
  then show ?thesis
    by (rule filterContent_stage_order)
qed

text \<open>
  C10: \<open>getContentByRating r\<close> returns the list that \<open>filterContent\<close> returns for the
  ratings \<open>[r]\<close>, no language and no genre (the list empty or absent) and no search query.
\<close>

theorem getContentByRating_filterContent:
  "getContentByRating collate st r = filterContent collate st [r] (Some []) (Some []) None \<and>
   getContentByRating collate st r = filterContent collate st [r] None None None"
  by (simp add: getContentByRating_def filterContent_def nonEmpty_def hasSearch_def
      filterByRatings_def filterByLanguages_def filterByGenres_def filterBySearch_def)

theorem getContentByRating_filterContent_witness:
  "getContentByRating codeUnits exampleStore ''15'' = [itemDark] \<and>
   filterContent codeUnits exampleStore [''15''] (Some []) (Some []) None = [itemDark]"
proof -
  have "getContentByRating codeUnits exampleStore ''15'' = [itemDark]"
    by code_simp
  then show ?thesis
    using getContentByRating_filterContent [of codeUnits exampleStore "''15''"]
    by simp
qed

section \<open>The refresh\<close>

lemma refresh_example: "refreshContentFromAPI exampleEnv newMemStorage = exampleStore"
  by code_simp

lemma set_map_set: "set (map_set k v m) \<subseteq> insert (k, v) (set m)"
  by (induction m) (auto split: if_splits)

lemma keys_map_set: "fst ` set (map_set k v m) = insert k (fst ` set m)"
  by (induction m) (force split: if_splits)+

lemma distinct_map_set: "distinct (map fst m) \<Longrightarrow> distinct (map fst (map_set k v m))"
  by (induction m) (auto simp add: keys_map_set)

lemma contentId_buildContent [simp]: "contentId (buildContent n t item d) = n"
  by (simp add: buildContent_def Let_def)

lemma tableInv_processItem:
  assumes inv: "tableInv st"
  shows "tableInv (processItem env req st)"
proof -
  obtain j item answer where req: "req = (j, item, answer)"
    by (cases req)
  show ?thesis
  proof (cases answer)
    case NetworkError
    with inv req show ?thesis by (simp add: processItem_def)
  next
    case (Response ok b)
    show ?thesis
    proof (cases b)
      case ParseError
      with inv req Response show ?thesis by (simp add: processItem_def)
    next
      case (Json details)
      let ?c = "buildContent (currentContentId st) (itemTime env j) item details"
      have st': "processItem env req st =
                 st\<lparr>currentContentId := currentContentId st + 1,
                    content := map_set (currentContentId st) ?c (content st)\<rparr>"
        using req Response Json by (simp add: processItem_def Let_def)
      have "distinct (map fst (map_set (currentContentId st) ?c (content st)))"
        using inv by (simp add: tableInv_def distinct_map_set)
      moreover have "\<forall>(k, c)\<in>set (map_set (currentContentId st) ?c (content st)).
                       contentId c = k \<and> k < currentContentId st + 1"
        using inv set_map_set [of "currentContentId st" ?c "content st"]
        by (fastforce simp add: tableInv_def)
      ultimately show ?thesis
        by (simp add: st' tableInv_def)
    qed
  qed
qed

lemma tableInv_fold: "tableInv st \<Longrightarrow> tableInv (fold (processItem env) reqs st)"
  by (induction reqs arbitrary: st) (simp_all add: tableInv_processItem)

lemma tableInv_catalogReady [simp]: "tableInv (st\<lparr>catalogReady := b\<rparr>) = tableInv st"
  by (simp add: tableInv_def)

lemma tableInv_processBatches:
  "tableInv st \<Longrightarrow> tableInv (processBatches env items i st)"
proof (induction env items i st rule: processBatches.induct)
  case (1 env items i st)
  show ?case
  proof (cases "i < length items")
    case True
    with "1.IH" [OF True refl refl refl refl] "1.prems" show ?thesis
      by (subst processBatches.simps) (simp add: Let_def tableInv_fold)
  next
    case False
    with "1.prems" show ?thesis by (subst processBatches.simps) simp
  qed
qed

lemma tableInv_refresh:
  assumes "tableInv st"
  shows "tableInv (refreshContentFromAPI env st)"
proof (cases "isUpdating st")
  case True
  with assms show ?thesis by (simp add: refreshContentFromAPI_def)
next
  case False
  let ?s = "st\<lparr>isUpdating := True, content := [], currentContentId := 1\<rparr>"
  have "tableInv ?s" by (simp add: tableInv_def)
  then have "tableInv (buildNetflixCatalogFromTMDB env ?s)"
    by (simp add: buildNetflixCatalogFromTMDB_def Let_def tableInv_processBatches)
  with False show ?thesis
    by (simp add: refreshContentFromAPI_def Let_def tableInv_def)
qed

lemma tableInv_reachable: "reachable st \<Longrightarrow> tableInv st"
proof (induction rule: reachable.induct)
  case new
  show ?case by (simp add: tableInv_def newMemStorage_def)
next
  case (refresh st env)
  then show ?case by (simp add: tableInv_refresh)
next
  case (user st name pw)
  then show ?case by (simp add: createUser_def Let_def tableInv_def)
next
  case (start st)
  show ?case by (simp add: tableInv_def)
next
  case (item st env req)
  then show ?case by (simp add: tableInv_processItem)
next
  case (ready st)
  then show ?case by simp
next
  case (finish st t)
  then show ?case by (simp add: tableInv_def)
qed

lemma ids_are_keys:
  "\<forall>(k, c)\<in>set m. contentId c = k \<Longrightarrow> map contentId (map_values m) = map fst m"
  by (induction m) (auto simp add: map_values_def)

text \<open>
  C8: identifiers are unique within the table. In every state that the storage reaches,
  also after a whole refresh that clears and rebuilds the table, no two stored titles have
  the same id and every title is stored under its own id; the ids in use are below the
  counter, so the next title gets a fresh one.
\<close>

theorem reachable_unique_ids:
  assumes "reachable st"
  shows "distinct (map contentId (map_values (content st))) \<and>
         distinct (map fst (content st)) \<and>
         (\<forall>(k, c)\<in>set (content st). contentId c = k \<and> k < currentContentId st)"
proof -
  have inv: "tableInv st"
    using assms by (rule tableInv_reachable)
  then have "map contentId (map_values (content st)) = map fst (content st)"
    by (intro ids_are_keys) (auto simp add: tableInv_def)
  with inv show ?thesis
    by (simp add: tableInv_def)
qed

theorem reachable_unique_ids_witness:
  "reachable (refreshContentFromAPI exampleEnv (refreshContentFromAPI failingEnv newMemStorage)) \<and>
   map contentId (map_values (content
     (refreshContentFromAPI exampleEnv (refreshContentFromAPI failingEnv newMemStorage)))) =
     [1, 2, 3] \<and>
   distinct (map contentId (map_values (content
     (refreshContentFromAPI exampleEnv (refreshContentFromAPI failingEnv newMemStorage)))))"
proof -
  have r: "reachable
             (refreshContentFromAPI exampleEnv (refreshContentFromAPI failingEnv newMemStorage))"
    by (intro reachable.refresh reachable.new)
  have "map contentId (map_values (content
          (refreshContentFromAPI exampleEnv (refreshContentFromAPI failingEnv newMemStorage)))) =
        [1, 2, 3]"
    by code_simp
  with r reachable_unique_ids [OF r] show ?thesis
    by blast
qed

text \<open>
  C9: while a refresh is in progress (\<open>isUpdating\<close> is set), \<open>refreshContentFromAPI\<close>
  returns at once and changes nothing: table, id counter, busy flag and time of the last
  update, like every other field, are the ones from before.
\<close>

theorem refresh_skipped_when_updating:
  assumes "isUpdating st"
  shows "refreshContentFromAPI env st = st"
  using assms by (simp add: refreshContentFromAPI_def)

theorem refresh_skipped_when_updating_witness:
  "isUpdating (exampleStore\<lparr>isUpdating := True\<rparr>) \<and>
   refreshContentFromAPI failingEnv (exampleStore\<lparr>isUpdating := True\<rparr>) =
     exampleStore\<lparr>isUpdating := True\<rparr>"
proof -
  have u: "isUpdating (exampleStore\<lparr>isUpdating := True\<rparr>)"
    by simp
  from u refresh_skipped_when_updating [OF u] show ?thesis
    by blast
qed

lemma fetchMovies_rejected: "rejected (moviePage env 1) \<Longrightarrow> fetchMovies env 1 [] = []"
  by (cases "moviePage env 1" rule: rejected.cases) (subst fetchMovies.simps, simp)+

lemma fetchTV_rejected: "rejected (tvPage env 1) \<Longrightarrow> fetchTV env 1 [] = []"
  by (cases "tvPage env 1" rule: rejected.cases) (subst fetchTV.simps, simp)+

lemma processBatches_Nil: "processBatches env [] 0 st = st"
  by (subst processBatches.simps) simp

text \<open>
  C2, as the specification words it: a refresh that fails with a network or parse error
  leaves the table as it was. The table is cleared before the first request is sent, so
  after a refresh whose requests all fail the three titles of the table are gone.
\<close>

theorem refresh_failure_keeps_table_counterexample:
  "\<not> isUpdating exampleStore \<and> rejected (moviePage failingEnv 1) \<and>
   rejected (tvPage failingEnv 1) \<and>
   content exampleStore = [(1, itemDark), (2, itemArrival), (3, itemUp)] \<and>
   content (refreshContentFromAPI failingEnv exampleStore) = []"
  by code_simp

text \<open>
  C2, amended: when no refresh is in progress and the first discovery request for films
  and the first one for series both fail with a network or parse error, the refresh
  leaves the table empty, whatever it held before; the id counter is back at 1, the time
  of the last update is set and every other field is as before.
\<close>

theorem refresh_failure_clears_table:
  assumes "\<not> isUpdating st" and "rejected (moviePage env 1)" and "rejected (tvPage env 1)"
  shows "refreshContentFromAPI env st =
         st\<lparr>content := [], currentContentId := 1, lastUpdateTime := endTime env\<rparr>"
proof -
  have build: "buildNetflixCatalogFromTMDB env s = s" for s
    using assms(2,3)
    by (simp only: buildNetflixCatalogFromTMDB_def Let_def fetchMovies_rejected
        fetchTV_rejected processBatches_Nil)
  show ?thesis
    using assms(1) by (cases st) (simp add: refreshContentFromAPI_def Let_def build)
qed

theorem refresh_failure_clears_table_witness:
  "\<not> isUpdating exampleStore \<and> rejected (moviePage failingEnv 1) \<and>
   rejected (tvPage failingEnv 1) \<and>
   refreshContentFromAPI failingEnv exampleStore =
     exampleStore\<lparr>content := [], currentContentId := 1, lastUpdateTime := 4000\<rparr>"
proof -
  have a: "\<not> isUpdating exampleStore"
    and b: "rejected (moviePage failingEnv 1)"
    and c: "rejected (tvPage failingEnv 1)"
    and e: "endTime failingEnv = 4000"
    by (simp_all add: exampleStore_def failingEnv_def)
  from a b c e refresh_failure_clears_table [OF a b c] show ?thesis
    by simp
qed

end
